theory Spec2Isabelle
  imports Main
begin

section \<open>Auto Port Config: the embedding of auto-port-config.py\<close>

text \<open>
  The script configures one switch interface from the hardware addresses learned on it.
  Python strings are modelled as \<^typ>\<open>string\<close>; the texts the script handles (hardware
  addresses, configuration lines, commands) are ASCII, where a character is a byte. The
  model follows Python 3, on which the script runs as it does on Python 2 (its last lines
  test the version): a \<open>str\<close> and a \<open>bytes\<close> are values of different types, never equal to
  one another, and \<open>encode("utf-8")\<close> makes the second from the first. The run is modelled
  without the \<open>-d\<close> flag, so the debug prints do not appear; every other print, every command
  batch given to the switch and every \<open>quit()\<close> is part of the model.
\<close>

subsection \<open>String primitives of Python used by the script\<close>

text \<open>
  The whitespace of \<open>strip()\<close> on text received from the switch: tab, line feed, vertical
  tab, form feed, carriage return, the four separators 0x1C to 0x1F and the space.
\<close>

definition is_space :: "char \<Rightarrow> bool" where
  "is_space c = (c \<in> set [CHR 0x09, CHR 0x0A, CHR 0x0B, CHR 0x0C, CHR 0x0D,
                            CHR 0x1C, CHR 0x1D, CHR 0x1E, CHR 0x1F, CHR '' ''])"

text \<open>\<open>s.strip()\<close>: whitespace removed at both ends, never inside.\<close>

definition strip :: "string \<Rightarrow> string" where
  "strip s = rev (dropWhile is_space (rev (dropWhile is_space s)))"

text \<open>\<open>s.lower()\<close> on ASCII: the 26 capital letters are mapped, every other character stays.\<close>

definition lower_char :: "char \<Rightarrow> char" where
  "lower_char c =
     (case map_of (zip ''ABCDEFGHIJKLMNOPQRSTUVWXYZ'' ''abcdefghijklmnopqrstuvwxyz'') c of
        Some l \<Rightarrow> l
      | None \<Rightarrow> c)"

definition lower :: "string \<Rightarrow> string" where
  "lower s = map lower_char s"

text \<open>\<open>s.replace(d, '')\<close> for a one-character \<open>d\<close>: every occurrence of \<open>d\<close> is deleted.\<close>

definition replace_char :: "char \<Rightarrow> string \<Rightarrow> string" where
  "replace_char d s = filter (\<lambda>c. c \<noteq> d) s"

text \<open>
  \<open>s.split(sep)\<close> for a one-character separator: the pieces between the separators, so
  the result is never empty and \<open>''''.split(sep)\<close> is the list holding one empty string.
\<close>

fun split_str :: "char \<Rightarrow> string \<Rightarrow> string list" where
  "split_str sep [] = [[]]"
| "split_str sep (c # cs) =
     (if c = sep then [] # split_str sep cs
      else (c # hd (split_str sep cs)) # tl (split_str sep cs))"

subsection \<open>clean_mac_address\<close>

definition clean_mac_address :: "string \<Rightarrow> string" where
  "clean_mac_address mac =
     lower (strip (replace_char CHR ''-'' (replace_char CHR ''.'' (replace_char CHR '':'' mac))))"

subsection \<open>The rule table\<close>

text \<open>
  One entry of \<open>configs['configs']\<close>: the patterns under \<open>macs\<close> and the configuration
  lines under \<open>config\<close>, both in file order.
\<close>

record rule =
  macs :: "string list"
  config :: "string list"

type_synonym configs = "rule list"

subsection \<open>The loops of check_interface_macs\<close>

text \<open>
  The innermost loop, \<open>for mac in config['macs']\<close>. The state is the pair
  \<open>(ouiMatch, defaultMatch)\<close>; \<open>Inl\<close> is the \<open>return config\<close> of an exact match, \<open>Inr\<close> the
  state after the last pattern. The three tests are made in the order of the source: the
  wildcard, the OUI, then the full address.
\<close>

fun scan_macs ::
  "string \<Rightarrow> rule \<Rightarrow> string list \<Rightarrow> rule option \<times> rule option
     \<Rightarrow> rule + rule option \<times> rule option" where
  "scan_macs mac_address cfg [] st = Inr st"
| "scan_macs mac_address cfg (m # ms) (ouiMatch, defaultMatch) =
     (let mac = clean_mac_address m;
          defaultMatch' = (if mac = ''*'' then Some cfg else defaultMatch);
          ouiMatch' = (if take 6 mac_address = mac then Some cfg else ouiMatch)
      in if mac_address = mac then Inl cfg
         else scan_macs mac_address cfg ms (ouiMatch', defaultMatch'))"

text \<open>The middle loop, \<open>for config in configs['configs']\<close>.\<close>

fun scan_configs ::
  "string \<Rightarrow> configs \<Rightarrow> rule option \<times> rule option \<Rightarrow> rule + rule option \<times> rule option" where
  "scan_configs mac_address [] st = Inr st"
| "scan_configs mac_address (cfg # cfgs) st =
     (case scan_macs mac_address cfg (macs cfg) st of
        Inl found \<Rightarrow> Inl found
      | Inr st' \<Rightarrow> scan_configs mac_address cfgs st')"

text \<open>
  The outer loop, \<open>for mac_address in ...['tableEntries']\<close>, over the \<open>macAddress\<close> fields in
  the order of the switch's answer. Its body ends in \<open>return ouiMatch\<close> or
  \<open>return defaultMatch\<close>, so there is no second iteration; with no entry the function falls
  off its end and the result is \<open>None\<close>.
\<close>

fun search_entries :: "string list \<Rightarrow> configs \<Rightarrow> rule option \<times> rule option \<Rightarrow> rule option" where
  "search_entries [] cfgs st = None"
| "search_entries (entry # entries) cfgs st =
     (case scan_configs (clean_mac_address entry) cfgs st of
        Inl found \<Rightarrow> Some found
      | Inr (ouiMatch, defaultMatch) \<Rightarrow>
          (if ouiMatch \<noteq> None then ouiMatch else defaultMatch))"

text \<open>
  The words of the specification: the first rule of the table holding a pattern, and the
  last one. A pattern is compared after \<open>clean_mac_address\<close>, as the loop does.
\<close>

definition has_pattern :: "string \<Rightarrow> rule \<Rightarrow> bool" where
  "has_pattern p r = (p \<in> set (map clean_mac_address (macs r)))"

definition first_rule_with :: "string \<Rightarrow> configs \<Rightarrow> rule option" where
  "first_rule_with p cfgs = find (has_pattern p) cfgs"

definition last_rule_with :: "string \<Rightarrow> configs \<Rightarrow> rule option" where
  "last_rule_with p cfgs = find (has_pattern p) (rev cfgs)"

subsection \<open>The comparison of check_interface_config\<close>

text \<open>
  A text value of Python 3, a \<open>str\<close> or a \<open>bytes\<close>. Values of the two kinds are never
  equal, whatever their characters, and that is the equality Python's sets use.
\<close>

datatype pytext = Str string | Bytes string

text \<open>\<open>s.encode("utf-8")\<close> of an ASCII \<open>str\<close>: the same characters, as a \<open>bytes\<close>.\<close>

definition encode_utf8 :: "string \<Rightarrow> pytext" where
  "encode_utf8 s = Bytes s"

text \<open>
  \<open>[line.strip().encode("utf-8") for line in config if line]\<close>: a line is kept when it is
  not the empty string; the test is made on the line as it is, before it is stripped. The
  kept lines are stripped and encoded.
\<close>

definition stripped_lines :: "string list \<Rightarrow> pytext list" where
  "stripped_lines lines =
     map (\<lambda>line. encode_utf8 (strip line)) (filter (\<lambda>line. line \<noteq> []) lines)"

text \<open>
  \<open>del config[:1]\<close> and the comparison of the two sets, on the lines that \<open>split\<close> gave:
  on one side the encoded live lines, on the other the lines of the rule, which are \<open>str\<close>
  values. \<open>same_config\<close> is the value the source returns; \<open>needsUpdate\<close> is its negation,
  the case in which \<open>main\<close> goes on to configure the interface.
\<close>

definition same_config :: "string list \<Rightarrow> string list \<Rightarrow> bool" where
  "same_config lines desired = (set (drop 1 (stripped_lines lines)) = set (map Str desired))"

definition needsUpdate :: "string list \<Rightarrow> string list \<Rightarrow> bool" where
  "needsUpdate live desired = (\<not> same_config live desired)"

subsection \<open>The switch and the functions that talk to it\<close>

text \<open>
  What a run does that can be seen from outside: a batch of commands given to
  \<open>switch.runCmds\<close> with its format, or a printed message.
\<close>

datatype event = RunCmds "string list" string | Printed string

text \<open>
  The part of an answer the script reads: the \<open>macAddress\<close> fields of
  \<open>response[1]['unicastTable']['tableEntries']\<close> and the text \<open>response[1]['output']\<close> (the field \<open>output_text\<close>).
  The switch is a function of the batch and the format; \<open>None\<close> is a raised exception.
\<close>

record reply =
  tableEntries :: "string list"
  output_text :: string

type_synonym switch = "string list \<Rightarrow> string \<Rightarrow> reply option"

text \<open>
  \<open>runCMD\<close> returns the events and the answer; the answer \<open>None\<close> is the \<open>quit()\<close> of the
  exception handler, whose message is recorded without the text of the exception that
  Python prints after it.
\<close>

definition runCMD :: "switch \<Rightarrow> string list \<Rightarrow> string \<Rightarrow> event list \<times> reply option" where
  "runCMD sw cmd fmt =
     (case sw (''enable'' # cmd) fmt of
        Some response \<Rightarrow> ([RunCmds (''enable'' # cmd) fmt], Some response)
      | None \<Rightarrow> ([RunCmds (''enable'' # cmd) fmt,
                  Printed ''Error with connecting to switch! Please try again.''], None))"

definition check_interface_macs ::
  "switch \<Rightarrow> string \<Rightarrow> configs \<Rightarrow> event list \<times> rule option option" where
  "check_interface_macs sw interface cfgs =
     (case runCMD sw [''show mac address-table interface '' @ interface] ''json'' of
        (evs, None) \<Rightarrow> (evs, None)
      | (evs, Some response) \<Rightarrow>
          (evs, Some (search_entries (tableEntries response) cfgs (None, None))))"

definition check_interface_config ::
  "switch \<Rightarrow> string \<Rightarrow> rule \<Rightarrow> event list \<times> bool option" where
  "check_interface_config sw interface int_config =
     (case runCMD sw [''show running-config interfaces  '' @ interface] ''text'' of
        (evs, None) \<Rightarrow> (evs, None)
      | (evs, Some response) \<Rightarrow>
          (evs, Some (same_config (split_str CHR 0x0A (output_text response)) (config int_config))))"

definition config_interface :: "switch \<Rightarrow> rule \<Rightarrow> string \<Rightarrow> event list \<times> reply option" where
  "config_interface sw cfg interface =
     runCMD sw ([''configure'', ''default interface '' @ interface, ''interface '' @ interface]
                @ config cfg) ''json''"

text \<open>The command batches among the events, in order.\<close>

fun batches :: "event list \<Rightarrow> string list list" where
  "batches [] = []"
| "batches (RunCmds cmds fmt # evs) = cmds # batches evs"
| "batches (Printed msg # evs) = batches evs"

subsection \<open>parse_config_file and main\<close>

text \<open>
  The two parsers belong to PyYAML and to the standard library, so they are parameters. A
  call either raises or returns; what it returns is the rule table, or Python's \<open>None\<close> for
  a document that holds nothing. The file is one open stream: \<open>yaml.safe_load\<close> is given
  the text of the file and leaves the part of it that it has not read, and
  \<open>json.load(f)\<close> is \<open>json.loads(f.read())\<close>, which parses what is left of the stream.
\<close>

datatype 'a attempt = Raised | Returned 'a

type_synonym yaml_loader = "string \<Rightarrow> configs option attempt \<times> string"
type_synonym json_parser = "string \<Rightarrow> configs option attempt"

definition parse_config_file :: "yaml_loader \<Rightarrow> json_parser \<Rightarrow> string \<Rightarrow> configs option" where
  "parse_config_file yaml_safe_load json_loads content =
     (case yaml_safe_load content of
        (Returned cfgs, unread) \<Rightarrow> cfgs
      | (Raised, unread) \<Rightarrow>
          (case json_loads unread of
             Returned cfgs \<Rightarrow> cfgs
           | Raised \<Rightarrow> None))"

text \<open>\<open>main\<close>: the events of a run up to the end of the process.\<close>

definition main :: "yaml_loader \<Rightarrow> json_parser \<Rightarrow> string \<Rightarrow> string \<Rightarrow> switch \<Rightarrow> event list" where
  "main yaml_safe_load json_loads content interface sw =
     (case parse_config_file yaml_safe_load json_loads content of
        None \<Rightarrow> [Printed ''Could not successfully parse the configuration file'']
      | Some cfgs \<Rightarrow>
          (case check_interface_macs sw interface cfgs of
             (evs1, None) \<Rightarrow> evs1
           | (evs1, Some None) \<Rightarrow> evs1
           | (evs1, Some (Some specificConfig)) \<Rightarrow>
               (case check_interface_config sw interface specificConfig of
                  (evs2, None) \<Rightarrow> evs1 @ evs2
                | (evs2, Some same) \<Rightarrow>
                    (if same then evs1 @ evs2
                     else evs1 @ evs2 @ fst (config_interface sw specificConfig interface)))))"

section \<open>Properties\<close>

lemmas string_defs = clean_mac_address_def lower_def lower_char_def strip_def replace_char_def
  is_space_def

subsection \<open>The resolver: what the three loops compute\<close>

lemma find_snoc:
  "find P (xs @ [x]) =
     (case find P xs of Some y \<Rightarrow> Some y | None \<Rightarrow> (if P x then Some x else None))"
  by (induction xs) simp_all

lemma scan_macs_result:
  "scan_macs a cfg ms (ouiMatch, defaultMatch) =
     (if a \<in> set (map clean_mac_address ms) then Inl cfg
      else Inr (if take 6 a \<in> set (map clean_mac_address ms) then Some cfg else ouiMatch,
                if ''*'' \<in> set (map clean_mac_address ms) then Some cfg else defaultMatch))"
proof (induction ms arbitrary: ouiMatch defaultMatch)
  case Nil
  show ?case by simp
next
  case (Cons m ms)
  show ?case
    by (auto simp add: Cons.IH Let_def)
qed

lemma scan_macs_rule:
  "scan_macs a cfg (macs cfg) (ouiMatch, defaultMatch) =
     (if has_pattern a cfg then Inl cfg
      else Inr (if has_pattern (take 6 a) cfg then Some cfg else ouiMatch,
                if has_pattern ''*'' cfg then Some cfg else defaultMatch))"
  unfolding has_pattern_def by (rule scan_macs_result)

lemma scan_configs_result:
  "scan_configs a cfgs (ouiMatch, defaultMatch) =
     (case first_rule_with a cfgs of
        Some r \<Rightarrow> Inl r
      | None \<Rightarrow>
          Inr (case last_rule_with (take 6 a) cfgs of Some r \<Rightarrow> Some r | None \<Rightarrow> ouiMatch,
               case last_rule_with ''*'' cfgs of Some r \<Rightarrow> Some r | None \<Rightarrow> defaultMatch))"
proof (induction cfgs arbitrary: ouiMatch defaultMatch)
  case Nil
  show ?case by (simp add: first_rule_with_def last_rule_with_def)
next
  case (Cons cfg cfgs)
  have fr: "first_rule_with a (cfg # cfgs) =
      (if has_pattern a cfg then Some cfg else first_rule_with a cfgs)"
    by (simp add: first_rule_with_def)
  have lr: "\<And>p. last_rule_with p (cfg # cfgs) =
      (case last_rule_with p cfgs of
         Some r \<Rightarrow> Some r
       | None \<Rightarrow> (if has_pattern p cfg then Some cfg else None))"
    by (simp add: last_rule_with_def find_snoc)
  show ?case
  proof (cases "has_pattern a cfg")
    case True
    then show ?thesis by (simp add: fr scan_macs_rule)
  next
    case False
    then show ?thesis
      by (simp add: fr lr scan_macs_rule Cons.IH split: option.splits)
  qed
qed

lemma search_entries_result:
  "search_entries (entry # entries) cfgs (None, None) =
     (case first_rule_with (clean_mac_address entry) cfgs of
        Some r \<Rightarrow> Some r
      | None \<Rightarrow>
          (case last_rule_with (take 6 (clean_mac_address entry)) cfgs of
             Some r \<Rightarrow> Some r
           | None \<Rightarrow> last_rule_with ''*'' cfgs))"
  by (simp add: scan_configs_result split: option.splits)


text \<open>
  Claim C2. When some rule holds a pattern equal to the first learned address (both
  normalized), the search returns the first such rule of the table, whatever OUI or wildcard
  patterns the rules before it hold.
\<close>

theorem exact_match_returns_first_rule:
  assumes "first_rule_with (clean_mac_address entry) cfgs = Some r"
  shows "search_entries (entry # entries) cfgs (None, None) = Some r"
  using assms by (simp add: search_entries_result del: search_entries.simps)

theorem exact_match_returns_first_rule_witness:
  "first_rule_with (clean_mac_address ''AA:BB:CC:11:22:33'')
       [\<lparr>macs = [''*'', ''aabbcc''], config = [''switchport access vlan 10'']\<rparr>,
        \<lparr>macs = [''00-11-22-33-44-55'', ''aabb.cc11.2233''], config = [''switchport mode trunk'']\<rparr>,
        \<lparr>macs = [''aa:bb:cc:11:22:33''], config = [''shutdown'']\<rparr>]
     = Some \<lparr>macs = [''00-11-22-33-44-55'', ''aabb.cc11.2233''], config = [''switchport mode trunk'']\<rparr>
   \<and> search_entries [''AA:BB:CC:11:22:33'', ''00:00:00:00:00:01'']
       [\<lparr>macs = [''*'', ''aabbcc''], config = [''switchport access vlan 10'']\<rparr>,
        \<lparr>macs = [''00-11-22-33-44-55'', ''aabb.cc11.2233''], config = [''switchport mode trunk'']\<rparr>,
        \<lparr>macs = [''aa:bb:cc:11:22:33''], config = [''shutdown'']\<rparr>] (None, None)
     = Some \<lparr>macs = [''00-11-22-33-44-55'', ''aabb.cc11.2233''], config = [''switchport mode trunk'']\<rparr>"
proof -
  have h: "first_rule_with (clean_mac_address ''AA:BB:CC:11:22:33'')
       [\<lparr>macs = [''*'', ''aabbcc''], config = [''switchport access vlan 10'']\<rparr>,
        \<lparr>macs = [''00-11-22-33-44-55'', ''aabb.cc11.2233''], config = [''switchport mode trunk'']\<rparr>,
        \<lparr>macs = [''aa:bb:cc:11:22:33''], config = [''shutdown'']\<rparr>]
     = Some \<lparr>macs = [''00-11-22-33-44-55'', ''aabb.cc11.2233''], config = [''switchport mode trunk'']\<rparr>"
    by (simp add: first_rule_with_def has_pattern_def string_defs)
  from h exact_match_returns_first_rule [OF h, of "[''00:00:00:00:00:01'']"]
  show ?thesis by simp
qed

text \<open>
  Claim C3. When no pattern equals the first learned address, the search returns the last
  rule of the table that holds the address's OUI as a pattern; when no rule holds the OUI,
  it returns the last rule that holds the wildcard, if any. So the last rule wins in each
  class, and an OUI match outranks a wildcard match.
\<close>

theorem oui_and_default_last_rule_wins:
  assumes "first_rule_with (clean_mac_address entry) cfgs = None"
  shows "search_entries (entry # entries) cfgs (None, None) =
           (case last_rule_with (take 6 (clean_mac_address entry)) cfgs of
              Some r \<Rightarrow> Some r
            | None \<Rightarrow> last_rule_with ''*'' cfgs)"
  using assms by (simp add: search_entries_result del: search_entries.simps)

theorem oui_and_default_last_rule_wins_witness:
  "first_rule_with (clean_mac_address ''aa:bb:cc:11:22:33'')
       [\<lparr>macs = [''aabbcc''], config = [''switchport mode access'']\<rparr>,
        \<lparr>macs = [''*''], config = [''switchport access vlan 10'']\<rparr>,
        \<lparr>macs = [''AA-BB-CC''], config = [''switchport mode trunk'']\<rparr>,
        \<lparr>macs = [''*''], config = [''shutdown'']\<rparr>] = None
   \<and> search_entries [''aa:bb:cc:11:22:33'']
       [\<lparr>macs = [''aabbcc''], config = [''switchport mode access'']\<rparr>,
        \<lparr>macs = [''*''], config = [''switchport access vlan 10'']\<rparr>,
        \<lparr>macs = [''AA-BB-CC''], config = [''switchport mode trunk'']\<rparr>,
        \<lparr>macs = [''*''], config = [''shutdown'']\<rparr>] (None, None)
     = Some \<lparr>macs = [''AA-BB-CC''], config = [''switchport mode trunk'']\<rparr>
   \<and> first_rule_with (clean_mac_address ''00:1c:73:00:00:01'')
       [\<lparr>macs = [''aabbcc''], config = [''switchport mode access'']\<rparr>,
        \<lparr>macs = [''*''], config = [''switchport access vlan 10'']\<rparr>,
        \<lparr>macs = [''AA-BB-CC''], config = [''switchport mode trunk'']\<rparr>,
        \<lparr>macs = [''*''], config = [''shutdown'']\<rparr>] = None
   \<and> search_entries [''00:1c:73:00:00:01'']
       [\<lparr>macs = [''aabbcc''], config = [''switchport mode access'']\<rparr>,
        \<lparr>macs = [''*''], config = [''switchport access vlan 10'']\<rparr>,
        \<lparr>macs = [''AA-BB-CC''], config = [''switchport mode trunk'']\<rparr>,
        \<lparr>macs = [''*''], config = [''shutdown'']\<rparr>] (None, None)
     = Some \<lparr>macs = [''*''], config = [''shutdown'']\<rparr>"
proof -
  let ?T = "[\<lparr>macs = [''aabbcc''], config = [''switchport mode access'']\<rparr>,
        \<lparr>macs = [''*''], config = [''switchport access vlan 10'']\<rparr>,
        \<lparr>macs = [''AA-BB-CC''], config = [''switchport mode trunk'']\<rparr>,
        \<lparr>macs = [''*''], config = [''shutdown'']\<rparr>]"
  have h1: "first_rule_with (clean_mac_address ''aa:bb:cc:11:22:33'') ?T = None"
    by (simp add: first_rule_with_def has_pattern_def string_defs)
  have h2: "first_rule_with (clean_mac_address ''00:1c:73:00:00:01'') ?T = None"
    by (simp add: first_rule_with_def has_pattern_def string_defs)
  have l1: "last_rule_with (take 6 (clean_mac_address ''aa:bb:cc:11:22:33'')) ?T
              = Some \<lparr>macs = [''AA-BB-CC''], config = [''switchport mode trunk'']\<rparr>"
    by (simp add: last_rule_with_def has_pattern_def string_defs)
  have l2: "last_rule_with (take 6 (clean_mac_address ''00:1c:73:00:00:01'')) ?T = None"
    by (simp add: last_rule_with_def has_pattern_def string_defs)
  have l3: "last_rule_with ''*'' ?T = Some \<lparr>macs = [''*''], config = [''shutdown'']\<rparr>"
    by (simp add: last_rule_with_def has_pattern_def string_defs)
  from oui_and_default_last_rule_wins [OF h1, of "[]"]
       oui_and_default_last_rule_wins [OF h2, of "[]"]
  show ?thesis
    by (simp only: h1 h2 l1 l2 l3 option.case simp_thms)
qed

text \<open>
  Claim C4. The claim asks that an exact match of any learned address, not only of the
  first, decides the result. The code at two learned addresses, the second of which is the
  only pattern of the only rule: the first address matches nothing, the body of the loop
  returns the empty default match, and the second address is never examined. With that
  address alone the rule is found.
\<close>

theorem second_address_never_examined:
  "search_entries [''00:1c:73:00:00:01'', ''aa:bb:cc:11:22:33'']
      [\<lparr>macs = [''aa:bb:cc:11:22:33''], config = [''switchport mode trunk'']\<rparr>] (None, None)
     = None
   \<and> search_entries [''aa:bb:cc:11:22:33'']
      [\<lparr>macs = [''aa:bb:cc:11:22:33''], config = [''switchport mode trunk'']\<rparr>] (None, None)
     = Some \<lparr>macs = [''aa:bb:cc:11:22:33''], config = [''switchport mode trunk'']\<rparr>"
  by (simp add: string_defs)

subsection \<open>The comparison with the running configuration\<close>

lemma stripped_lines_are_bytes:
  "x \<in> set (stripped_lines lines) \<Longrightarrow> \<exists>b. x = Bytes b"
  by (auto simp add: stripped_lines_def encode_utf8_def)

lemma same_config_only_when_empty:
  "same_config lines desired = (drop 1 (stripped_lines lines) = [] \<and> desired = [])"
proof
  assume eq: "same_config lines desired"
  then have sets: "set (drop 1 (stripped_lines lines)) = set (map Str desired)"
    by (simp add: same_config_def)
  have d: "desired = []"
  proof (rule ccontr)
    assume "desired \<noteq> []"
    then obtain l ls where "desired = l # ls" by (cases desired) auto
    then have "Str l \<in> set (drop 1 (stripped_lines lines))" using sets by simp
    then have "Str l \<in> set (stripped_lines lines)" by (rule in_set_dropD)
    then show False using stripped_lines_are_bytes by blast
  qed
  with sets have "set (drop 1 (stripped_lines lines)) = {}" by simp
  then have "drop 1 (stripped_lines lines) = []" by (simp only: set_empty)
  with d show "drop 1 (stripped_lines lines) = [] \<and> desired = []" by simp
next
  assume "drop 1 (stripped_lines lines) = [] \<and> desired = []"
  then show "same_config lines desired" by (simp add: same_config_def)
qed

text \<open>
  Claim C5. The claim asks that \<open>needsUpdate\<close> is false exactly when the live lines, one
  leading line removed, and the desired lines are equal as sets, as the docstring of
  \<open>check_interface_config\<close> says (true if the configuration is the same). The code encodes
  every live line before the comparison, so it compares \<open>bytes\<close> with \<open>str\<close>: the two sets
  are equal only when both are empty. At the first example of the specification, where the
  live lines after the header are the desired lines, \<open>needsUpdate\<close> is true.
\<close>

theorem needsUpdate_compares_bytes_with_str:
  "needsUpdate ['' interface Eth1'', ''switchport mode trunk'', ''x'']
               [''switchport mode trunk'', ''x''] = True
   \<and> (\<not> needsUpdate live desired) = (drop 1 (stripped_lines live) = [] \<and> desired = [])"
  by (simp add: needsUpdate_def same_config_only_when_empty stripped_lines_def)

subsection \<open>The batch that configures the interface\<close>

lemma batches_runCMD: "batches (fst (runCMD sw cmd fmt)) = [''enable'' # cmd]"
  by (simp add: runCMD_def split: option.splits)

text \<open>
  Claim C7, as stated: the batch is the privilege elevation, the reset of the interface, the
  entry into the interface and the configuration lines. The code sends one command more,
  \<open>configure\<close>, between the elevation and the reset.
\<close>

theorem config_interface_batch_counterexample:
  "batches (fst (config_interface (\<lambda>cmds fmt. Some \<lparr>tableEntries = [], output_text = []\<rparr>)
                   \<lparr>macs = [''aabbcc''], config = [''switchport mode trunk'']\<rparr> ''Ethernet1''))
     \<noteq> [[''enable'', ''default interface Ethernet1'', ''interface Ethernet1'',
           ''switchport mode trunk'']]"
  by (simp add: config_interface_def runCMD_def)

text \<open>
  Claim C7, amended. For every interface name and rule, and whatever the switch answers,
  \<open>config_interface\<close> sends exactly one batch: \<open>enable\<close>, \<open>configure\<close>, the reset of the
  interface to its default, the entry into the interface, then the rule's configuration
  lines in their order.
\<close>

theorem config_interface_batch:
  "batches (fst (config_interface sw cfg interface)) =
     [''enable'' # ''configure'' # (''default interface '' @ interface)
        # (''interface '' @ interface) # config cfg]"
  by (simp add: config_interface_def batches_runCMD)

subsection \<open>The normalizer\<close>

lemma lower_char_idem: "lower_char (lower_char c) = lower_char c"
  by (simp add: lower_char_def)

lemma is_space_lower_char: "is_space (lower_char c) = is_space c"
  by (simp add: lower_char_def is_space_def)

lemma lower_char_delimiter:
  "(lower_char c \<in> {CHR '':'', CHR ''.'', CHR ''-''}) = (c \<in> {CHR '':'', CHR ''.'', CHR ''-''})"
  by (simp add: lower_char_def)

lemma strip_lower: "strip (lower s) = lower (strip s)"
proof -
  have c: "is_space \<circ> lower_char = is_space"
    by (rule ext) (simp add: is_space_lower_char)
  show ?thesis
    by (simp add: strip_def lower_def dropWhile_map rev_map c)
qed

lemma dropWhile_rev_dropWhile_rev:
  assumes "\<not> P y"
  shows "dropWhile P (rev (dropWhile P (rev (y # ys)))) = rev (dropWhile P (rev (y # ys)))"
  using assms by (simp add: dropWhile_append)

lemma dropWhile_rev_dropWhile:
  "dropWhile P (rev (dropWhile P (rev (dropWhile P xs)))) = rev (dropWhile P (rev (dropWhile P xs)))"
proof (cases "dropWhile P xs")
  case Nil
  show ?thesis unfolding Nil by simp
next
  case (Cons y ys)
  then have "\<not> P y" using hd_dropWhile [of P xs] by simp
  then show ?thesis unfolding Cons by (rule dropWhile_rev_dropWhile_rev)
qed

lemma strip_idem: "strip (strip s) = strip s"
  by (simp add: strip_def dropWhile_rev_dropWhile)

lemma set_strip: "set (strip s) \<subseteq> set s"
proof -
  have "set (dropWhile is_space (rev (dropWhile is_space s))) \<subseteq> set (rev (dropWhile is_space s))"
    by (auto dest: set_dropWhileD)
  also have "\<dots> \<subseteq> set s" by (auto dest: set_dropWhileD)
  finally show ?thesis by (simp add: strip_def)
qed

lemma replace_chars_filter:
  "replace_char CHR ''-'' (replace_char CHR ''.'' (replace_char CHR '':'' mac))
     = filter (\<lambda>c. c \<notin> {CHR '':'', CHR ''.'', CHR ''-''}) mac"
  by (induction mac) (simp_all add: replace_char_def)

lemma clean_mac_address_no_delimiter:
  "set (clean_mac_address mac) \<inter> {CHR '':'', CHR ''.'', CHR ''-''} = {}"
proof -
  let ?D = "{CHR '':'', CHR ''.'', CHR ''-''}"
  let ?body = "filter (\<lambda>c. c \<notin> ?D) mac"
  have nd: "c \<notin> ?D" if "c \<in> set (strip ?body)" for c
  proof -
    from that set_strip [of ?body] have "c \<in> set ?body" by blast
    then show ?thesis by simp
  qed
  have "x \<notin> ?D" if "x \<in> set (clean_mac_address mac)" for x
  proof -
    from that obtain c where c: "c \<in> set (strip ?body)" and x: "x = lower_char c"
      unfolding clean_mac_address_def lower_def replace_chars_filter by (auto simp only: set_map image_iff)
    from nd [OF c] lower_char_delimiter [of c] show ?thesis unfolding x by blast
  qed
  then show ?thesis by blast
qed


lemma clean_mac_address_examples:
  "clean_mac_address ''AA:BB:CC:11:22:33'' = ''aabbcc112233''"
  "clean_mac_address ''aabb.cc11.2233'' = ''aabbcc112233''"
  "clean_mac_address ''aa-bb-cc-11-22-33'' = ''aabbcc112233''"
  "clean_mac_address '' Not-A.MAC: at all '' = ''notamac at all''"
  by (simp_all add: string_defs)

text \<open>
  Claim C8. For every string, \<open>clean_mac_address\<close> deletes every colon, dot and hyphen,
  strips the whitespace around what is left and puts it in lower case: the result holds no
  delimiter, and stripping or lowering it again changes nothing. Nothing is validated, so a
  string that is no hardware address is transformed like any other. The three spellings of
  the specification all give \<open>aabbcc112233\<close>.
\<close>

theorem clean_mac_address_normalizes:
  "clean_mac_address mac =
     lower (strip (filter (\<lambda>c. c \<notin> {CHR '':'', CHR ''.'', CHR ''-''}) mac))
   \<and> set (clean_mac_address mac) \<inter> {CHR '':'', CHR ''.'', CHR ''-''} = {}
   \<and> strip (clean_mac_address mac) = clean_mac_address mac
   \<and> lower (clean_mac_address mac) = clean_mac_address mac
   \<and> clean_mac_address ''AA:BB:CC:11:22:33'' = ''aabbcc112233''
   \<and> clean_mac_address ''aabb.cc11.2233'' = ''aabbcc112233''
   \<and> clean_mac_address ''aa-bb-cc-11-22-33'' = ''aabbcc112233''
   \<and> clean_mac_address '' Not-A.MAC: at all '' = ''notamac at all''"
proof -
  have a: "clean_mac_address mac =
     lower (strip (filter (\<lambda>c. c \<notin> {CHR '':'', CHR ''.'', CHR ''-''}) mac))"
    by (simp only: clean_mac_address_def replace_chars_filter)
  have c: "strip (clean_mac_address mac) = clean_mac_address mac"
    by (simp only: clean_mac_address_def strip_lower strip_idem)
  have d: "lower (clean_mac_address mac) = clean_mac_address mac"
    by (simp add: clean_mac_address_def lower_def lower_char_idem)
  from a clean_mac_address_no_delimiter [of mac] c d clean_mac_address_examples show ?thesis
    by (intro conjI)
qed

subsection \<open>Empty lines of the running configuration\<close>

lemma split_str_not_Nil: "split_str sep s \<noteq> []"
  by (induction s) simp_all

lemma split_str_append:
  "split_str sep (xs @ sep # ys) = split_str sep xs @ split_str sep ys"
  by (induction xs) (simp_all add: split_str_not_Nil)

lemma stripped_lines_insert_empty:
  "stripped_lines (before @ [] # after) = stripped_lines (before @ after)"
  by (simp add: stripped_lines_def)

lemma stripped_lines_leading:
  "stripped_lines (replicate n [] @ (c # cs) # rest)
     = encode_utf8 (strip (c # cs)) # stripped_lines rest"
  by (simp add: stripped_lines_def)

text \<open>
  Claim C10, as stated: every line is stripped and the empty lines are dropped, so that a
  blank line put into the live configuration never changes \<open>needsUpdate\<close>. The code tests a
  line before it strips it: a line of one space is kept, becomes the empty text and counts
  as a line. Put first, it is the line that is removed in place of the header; put after
  the header of a dump that holds nothing else, it turns the answer from false to true.
\<close>

theorem blank_line_counterexample:
  "needsUpdate [''interface Eth1'', '' ''] [] \<noteq> needsUpdate [''interface Eth1''] []
   \<and> stripped_lines ['' '', ''interface Eth1''] = [Bytes [], Bytes ''interface Eth1'']"
  by (simp add: needsUpdate_def same_config_def stripped_lines_def encode_utf8_def strip_def
        is_space_def)

text \<open>
  Claim C10, amended. Before the leading line is removed, the lines of no character are
  dropped from the dump and every line that is kept is stripped; a line of whitespace only
  is kept and becomes the empty text. So the line that is removed is the first line of the
  dump that has a character, and a line of no character put in or taken out anywhere, in
  the list of lines or in the text of the dump, does not change \<open>needsUpdate\<close>.
\<close>

theorem empty_lines_dropped_before_leading_line:
  "stripped_lines live
     = map (\<lambda>line. encode_utf8 (strip line)) (filter (\<lambda>line. line \<noteq> []) live)
   \<and> stripped_lines (before @ [] # after) = stripped_lines (before @ after)
   \<and> needsUpdate (before @ [] # after) desired = needsUpdate (before @ after) desired
   \<and> needsUpdate (replicate n [] @ (c # cs) # rest) desired
       = (set (stripped_lines rest) \<noteq> set (map Str desired))
   \<and> needsUpdate (split_str CHR 0x0A (text1 @ CHR 0x0A # CHR 0x0A # text2)) desired
       = needsUpdate (split_str CHR 0x0A (text1 @ CHR 0x0A # text2)) desired"
proof -
  have a: "stripped_lines live
     = map (\<lambda>line. encode_utf8 (strip line)) (filter (\<lambda>line. line \<noteq> []) live)"
    by (simp add: stripped_lines_def)
  have c: "stripped_lines (before @ [] # after) = stripped_lines (before @ after)"
    by (rule stripped_lines_insert_empty)
  have d: "needsUpdate (before @ [] # after) desired = needsUpdate (before @ after) desired"
    by (simp only: needsUpdate_def same_config_def stripped_lines_insert_empty)
  have e: "needsUpdate (replicate n [] @ (c # cs) # rest) desired
       = (set (stripped_lines rest) \<noteq> set (map Str desired))"
    by (simp add: needsUpdate_def same_config_def stripped_lines_leading)
  have "split_str CHR 0x0A (text1 @ CHR 0x0A # CHR 0x0A # text2)
          = split_str CHR 0x0A text1 @ [] # split_str CHR 0x0A text2"
    by (simp add: split_str_append)
  moreover have "split_str CHR 0x0A (text1 @ CHR 0x0A # text2)
          = split_str CHR 0x0A text1 @ split_str CHR 0x0A text2"
    by (rule split_str_append)
  ultimately have f:
    "needsUpdate (split_str CHR 0x0A (text1 @ CHR 0x0A # CHR 0x0A # text2)) desired
       = needsUpdate (split_str CHR 0x0A (text1 @ CHR 0x0A # text2)) desired"
    by (simp only: needsUpdate_def same_config_def stripped_lines_insert_empty)
  from a c d e f show ?thesis by blast
qed

subsection \<open>The run\<close>

text \<open>
  Claim C9. With no learned address the search returns none, for every rule table. A run
  whose rule file was parsed and whose address table is empty asks the switch for the
  address table and does nothing else: no running configuration is fetched and no
  configuration is sent.
\<close>

theorem no_learned_address_no_action:
  assumes "parse_config_file yaml_safe_load json_loads content = Some cfgs"
    and "sw [''enable'', ''show mac address-table interface '' @ interface] ''json''
           = Some response"
    and "tableEntries response = []"
  shows "search_entries [] cfgs st = None
         \<and> check_interface_macs sw interface cfgs
             = ([RunCmds [''enable'', ''show mac address-table interface '' @ interface] ''json''],
                Some None)
         \<and> main yaml_safe_load json_loads content interface sw
             = [RunCmds [''enable'', ''show mac address-table interface '' @ interface] ''json'']"
proof -
  have m: "check_interface_macs sw interface cfgs
             = ([RunCmds [''enable'', ''show mac address-table interface '' @ interface] ''json''],
                Some None)"
    using assms(2,3) by (simp add: check_interface_macs_def runCMD_def)
  have "main yaml_safe_load json_loads content interface sw
             = [RunCmds [''enable'', ''show mac address-table interface '' @ interface] ''json'']"
    by (simp add: main_def assms(1) m)
  with m show ?thesis by simp
qed

theorem no_learned_address_no_action_witness:
  "parse_config_file (\<lambda>text. (Returned (Some [\<lparr>macs = [''*''], config = [''shutdown'']\<rparr>]), []))
       (\<lambda>text. Raised) ''configs: [{macs: [*], config: [shutdown]}]''
     = Some [\<lparr>macs = [''*''], config = [''shutdown'']\<rparr>]
   \<and> (\<lambda>cmds fmt. Some \<lparr>tableEntries = [], output_text = []\<rparr>)
        [''enable'', ''show mac address-table interface '' @ ''Ethernet1''] ''json''
     = Some \<lparr>tableEntries = [], output_text = []\<rparr>
   \<and> tableEntries \<lparr>tableEntries = [], output_text = []\<rparr> = []
   \<and> search_entries [] [\<lparr>macs = [''*''], config = [''shutdown'']\<rparr>] (None, None) = None
   \<and> main (\<lambda>text. (Returned (Some [\<lparr>macs = [''*''], config = [''shutdown'']\<rparr>]), []))
       (\<lambda>text. Raised) ''configs: [{macs: [*], config: [shutdown]}]'' ''Ethernet1''
       (\<lambda>cmds fmt. Some \<lparr>tableEntries = [], output_text = []\<rparr>)
     = [RunCmds [''enable'', ''show mac address-table interface Ethernet1''] ''json'']"
proof -
  have p: "parse_config_file
       (\<lambda>text. (Returned (Some [\<lparr>macs = [''*''], config = [''shutdown'']\<rparr>]), []))
       (\<lambda>text. Raised) ''configs: [{macs: [*], config: [shutdown]}]''
     = Some [\<lparr>macs = [''*''], config = [''shutdown'']\<rparr>]"
    by (simp add: parse_config_file_def)
  have s: "(\<lambda>cmds fmt. Some \<lparr>tableEntries = [], output_text = []\<rparr>)
        [''enable'', ''show mac address-table interface '' @ ''Ethernet1''] ''json''
     = Some \<lparr>tableEntries = [], output_text = []\<rparr>"
    by simp
  have t: "tableEntries \<lparr>tableEntries = [], output_text = []\<rparr> = []" by simp
  from p s t no_learned_address_no_action [OF p s t, of "(None, None)"]
  show ?thesis by simp
qed

text \<open>
  Claim C6. The claim asks that a file which YAML rejects and which is valid JSON is parsed
  as JSON. In the code both parsers read the same open stream, and the second one gets what
  the first has left. Where the YAML parser has read the file to its end before it raises,
  as it does with every file shorter than its first block, the JSON parser is given the
  empty text, raises too, and the run ends with the message of an unparseable file and
  without a command to the switch, although the content is valid JSON.
\<close>

theorem json_fallback_reads_the_consumed_stream:
  assumes "yaml_safe_load content = (Raised, [])"
    and "json_loads [] = Raised"
    and "json_loads content = Returned (Some cfgs)"
  shows "parse_config_file yaml_safe_load json_loads content = None
         \<and> main yaml_safe_load json_loads content interface sw
             = [Printed ''Could not successfully parse the configuration file'']"
  using assms(1,2) by (simp add: main_def parse_config_file_def)

theorem json_fallback_reads_the_consumed_stream_witness:
  "(\<lambda>text. (Raised, []))
        (''{'' @ [CHR 0x0A, CHR 0x09, CHR 0x22] @ ''configs'' @ [CHR 0x22] @ '': []''
           @ [CHR 0x0A] @ ''}'')
      = (Raised :: configs option attempt, [] :: string)
   \<and> (\<lambda>text. if text = [] then Raised else Returned (Some [])) ([] :: string)
      = (Raised :: configs option attempt)
   \<and> (\<lambda>text. if text = [] then Raised else Returned (Some []))
        (''{'' @ [CHR 0x0A, CHR 0x09, CHR 0x22] @ ''configs'' @ [CHR 0x22] @ '': []''
           @ [CHR 0x0A] @ ''}'')
      = (Returned (Some []) :: configs option attempt)
   \<and> parse_config_file (\<lambda>text. (Raised, []))
        (\<lambda>text. if text = [] then Raised else Returned (Some []))
        (''{'' @ [CHR 0x0A, CHR 0x09, CHR 0x22] @ ''configs'' @ [CHR 0x22] @ '': []''
           @ [CHR 0x0A] @ ''}'')
      = None
   \<and> main (\<lambda>text. (Raised, []))
        (\<lambda>text. if text = [] then Raised else Returned (Some []))
        (''{'' @ [CHR 0x0A, CHR 0x09, CHR 0x22] @ ''configs'' @ [CHR 0x22] @ '': []''
           @ [CHR 0x0A] @ ''}'')
        ''Ethernet1'' (\<lambda>cmds fmt. None)
      = [Printed ''Could not successfully parse the configuration file'']"
proof -
  let ?content = "''{'' @ [CHR 0x0A, CHR 0x09, CHR 0x22] @ ''configs'' @ [CHR 0x22] @ '': []''
                    @ [CHR 0x0A] @ ''}''"
  let ?yaml = "\<lambda>text :: string. (Raised :: configs option attempt, [] :: string)"
  let ?json = "\<lambda>text :: string. if text = [] then Raised else Returned (Some ([] :: configs))"
  have y: "?yaml ?content = (Raised, [])" by simp
  have j0: "?json [] = Raised" by simp
  have j1: "?json ?content = Returned (Some [])" by simp
  from y j0 j1
    json_fallback_reads_the_consumed_stream
      [of ?yaml ?content ?json "[]" "''Ethernet1''" "\<lambda>cmds fmt. None", OF y j0 j1]
  show ?thesis by simp
qed

end
